theory Spec2Isabelle
  imports Main
begin

section \<open>The scheduler dispatcher of deps/uv/src/scheduler.c\<close>

text \<open>
  The file is one translation unit of C. It keeps one process-wide object, the struct
  \<open>scheduler\<close>, and one flag, \<open>scheduler_initialized\<close>; every public function first
  asserts \<open>scheduler__looks_valid()\<close> and then forwards to a table of function pointers
  that the chosen policy filled in. The embedding passes the globals explicitly: a
  function of the file takes the world before the call and returns either the error that
  ends the process or the world after it.

  The headers the file includes are not part of it. What it uses from them is taken as a
  parameter (the enumeration constants, the compile-time switches, the policy
  constructors, the conversion of a thread identity to \<open>int\<close>) or, for the two small
  helper modules (the keyed map and the reentrant mutex), modelled from the specification.
\<close>

subsection \<open>Outcomes\<close>

text \<open>
  \<open>assert\<close> aborts the process; the assertions are taken as compiled in (no \<open>NDEBUG\<close>).
  Each assertion of the file is one value of \<open>assertion\<close>, so that a result tells which
  one fired. The remaining errors are the undefined behaviours
  the file can run into: an index outside a table, a write or read past a \<open>char[1024]\<close>,
  a call through a null pointer, and a failure inside a policy constructor.
\<close>

datatype assertion =
    A_in_range            \<comment> \<open>\<open>SCHEDULER_MODE_MIN <= x && x < SCHEDULER_MODE_MAX\<close>\<close>
  | A_not_initialized     \<comment> \<open>\<open>!initialized\<close>\<close>
  | A_map_not_NULL        \<comment> \<open>\<open>scheduler.tidToType != NULL\<close>\<close>
  | A_how_did_we_get_here \<comment> \<open>the \<open>default\<close> branch of the switch\<close>
  | A_looks_valid         \<comment> \<open>\<open>scheduler__looks_valid()\<close>\<close>
  | A_found               \<comment> \<open>\<open>found\<close>\<close>

datatype error =
    Assertion_failed assertion
  | Out_of_bounds
  | Buffer_overflow
  | Null_pointer
  | Mutex_misuse
  | Policy_abort

subsection \<open>What the headers provide\<close>

text \<open>
  C enumerations are \<open>int\<close>s. The file names four constants of \<open>scheduler.h\<close> as values:
  the two bounds used by every range assertion, the mode compared in \<open>scheduler_emit\<close>
  and the one policy kind that is a \<open>case\<close> label of the switch. The only arithmetic on
  them is the difference of a value and a bound that the assertion has just compared, so
  the integers are left unbounded. Values and bounds are compared as the \<open>int\<close>s they are:
  that is the C comparison where the enumeration types are signed, and also where they
  are unsigned and the header's bounds are not negative, the argument then being one of
  the non-negative values such a type has. A header with a negative
  \<open>SCHEDULER_MODE_MIN\<close> under an unsigned enumeration type is outside the embedding.
\<close>

record header =
  SCHEDULER_MODE_MIN :: int
  SCHEDULER_MODE_MAX :: int
  SCHEDULER_MODE_REPLAY :: int
  SCHEDULER_TYPE_CBTREE :: int

type_synonym addr = nat

definition SCHEDULER_MAGIC :: int where
  "SCHEDULER_MAGIC = 8675309"

definition NUL :: char where
  "NUL = CHR 0x00"

subsection \<open>The display-name tables\<close>

definition scheduler_type_strings :: "string list" where
  "scheduler_type_strings = [''CBTREE'', ''FUZZER_TIMER'', ''FUZZER_THREAD_ORDER'']"

definition scheduler_mode_strings :: "string list" where
  "scheduler_mode_strings = [''RECORD'', ''REPLAY'']"

definition thread_type_strings :: "string list" where
  "thread_type_strings = [''LOOPER'', ''THREADPOOL'']"

definition schedule_point_strings :: "string list" where
  "schedule_point_strings =
     [''BEFORE_EXEC_CB'', ''AFTER_EXEC_CB'',
      ''TP_BEFORE_GET_WORK'', ''TP_AFTER_GET_WORK'',
      ''TP_BEFORE_PUT_DONE'', ''TP_AFTER_PUT_DONE'']"

text \<open>
  Reading slot \<open>i\<close> of a table declared with \<open>len\<close> slots and the initialisers \<open>names\<close>:
  outside the declared length the read is out of bounds, a slot without an initialiser
  holds the null pointer (\<open>None\<close>).
\<close>

definition table_entry :: "string list \<Rightarrow> int \<Rightarrow> int \<Rightarrow> error + string option" where
  "table_entry names len i =
     (if i < 0 \<or> len \<le> i then Inl Out_of_bounds
      else if i < int (length names) then Inr (Some (names ! nat i))
      else Inr None)"

definition scheduler_type_to_string :: "header \<Rightarrow> int \<Rightarrow> error + string option" where
  "scheduler_type_to_string h type =
     (if SCHEDULER_MODE_MIN h \<le> type \<and> type < SCHEDULER_MODE_MAX h
      then table_entry scheduler_type_strings
             (SCHEDULER_MODE_MAX h - SCHEDULER_MODE_MIN h + 1) (type - SCHEDULER_MODE_MIN h)
      else Inl (Assertion_failed A_in_range))"

definition scheduler_mode_to_string :: "header \<Rightarrow> int \<Rightarrow> error + string option" where
  "scheduler_mode_to_string h mode =
     (if SCHEDULER_MODE_MIN h \<le> mode \<and> mode < SCHEDULER_MODE_MAX h
      then table_entry scheduler_mode_strings
             (SCHEDULER_MODE_MAX h - SCHEDULER_MODE_MIN h + 1) (mode - SCHEDULER_MODE_MIN h)
      else Inl (Assertion_failed A_in_range))"

definition thread_type_to_string :: "header \<Rightarrow> int \<Rightarrow> error + string option" where
  "thread_type_to_string h type =
     (if SCHEDULER_MODE_MIN h \<le> type \<and> type < SCHEDULER_MODE_MAX h
      then table_entry thread_type_strings
             (SCHEDULER_MODE_MAX h - SCHEDULER_MODE_MIN h + 1) (type - SCHEDULER_MODE_MIN h)
      else Inl (Assertion_failed A_in_range))"

text \<open>
  The body of \<open>schedule_point_to_string\<close> never mentions its parameter \<open>point\<close>: both the
  assertion and the index are written with \<open>type\<close>, a name the function does not bind.
  Whatever that name denotes at file scope is the second argument here.
\<close>

definition schedule_point_to_string :: "header \<Rightarrow> int \<Rightarrow> int \<Rightarrow> error + string option" where
  "schedule_point_to_string h type point =
     (if SCHEDULER_MODE_MIN h \<le> type \<and> type < SCHEDULER_MODE_MAX h
      then table_entry schedule_point_strings
             (SCHEDULER_MODE_MAX h - SCHEDULER_MODE_MIN h + 1) (type - SCHEDULER_MODE_MIN h)
      else Inl (Assertion_failed A_in_range))"

subsection \<open>C strings in fixed buffers\<close>

text \<open>
  A \<open>char *\<close> argument is read as a C string: the characters before the first \<open>NUL\<close>.
  A buffer is the list of its bytes. \<open>strncpy dst src n\<close> writes exactly \<open>n\<close> bytes: the
  first \<open>n\<close> characters of the string, padded with \<open>NUL\<close> when the string is shorter, and
  with no \<open>NUL\<close> at all when it is not.
\<close>

definition c_string :: "string \<Rightarrow> string" where
  "c_string bytes = takeWhile (\<lambda>c. c \<noteq> NUL) bytes"

definition strncpy :: "string \<Rightarrow> nat \<Rightarrow> string" where
  "strncpy src n = take n (c_string src) @ replicate (n - length (c_string src)) NUL"

text \<open>
  \<open>strcpy\<close> reads its source up to the first \<open>NUL\<close> and writes the string and the \<open>NUL\<close>.
  With a source buffer that holds no \<open>NUL\<close> it reads past the buffer; with a destination
  of \<open>dst_size\<close> bytes that is too small it writes past it. \<open>strcat\<close> appends behind the
  string already in the destination, under the same bound. The result is the string the
  destination then holds.
\<close>

definition strcpy :: "nat \<Rightarrow> string \<Rightarrow> error + string" where
  "strcpy dst_size src =
     (if NUL \<notin> set src then Inl Buffer_overflow
      else if dst_size < length (c_string src) + 1 then Inl Buffer_overflow
      else Inr (c_string src))"

definition strcat :: "nat \<Rightarrow> string \<Rightarrow> string \<Rightarrow> error + string" where
  "strcat dst_size dst src =
     (if dst_size < length dst + length src + 1 then Inl Buffer_overflow
      else Inr (dst @ src))"

subsection \<open>The keyed map and the reentrant mutex\<close>

text \<open>
  Modelled from the spec: \<open>map.h\<close> is not part of the file. The specification calls it a
  generic keyed map and a pure lookup table: \<open>map_create\<close> gives an empty map, or the null
  pointer (\<open>None\<close>) when it cannot allocate one; \<open>map_insert\<close> stores a value under an
  \<open>int\<close> key; \<open>map_lookup\<close> returns the value stored under the key and sets \<open>found\<close>.
  The values are the thread roles, cast to a pointer and back.
\<close>

type_synonym map_t = "int \<rightharpoonup> int"

definition map_create :: "bool \<Rightarrow> map_t option" where
  \<comment> \<open>Modelled from the spec: \<open>map_create\<close> of the missing \<open>map.h\<close>, an empty map or \<open>NULL\<close>.\<close>
  "map_create allocated = (if allocated then Some Map.empty else None)"

definition map_insert :: "map_t option \<Rightarrow> int \<Rightarrow> int \<Rightarrow> error + map_t option" where
  \<comment> \<open>Modelled from the spec: \<open>map_insert\<close> of the missing \<open>map.h\<close>, the key then holds the value.\<close>
  "map_insert mp key val =
     (case mp of None \<Rightarrow> Inl Null_pointer | Some m \<Rightarrow> Inr (Some (m(key \<mapsto> val))))"

definition map_lookup :: "map_t option \<Rightarrow> int \<Rightarrow> error + (int \<times> bool)" where
  \<comment> \<open>Modelled from the spec: \<open>map_lookup\<close> of the missing \<open>map.h\<close>, the value and \<open>found\<close>.\<close>
  "map_lookup mp key =
     (case mp of
        None \<Rightarrow> Inl Null_pointer
      | Some m \<Rightarrow> (case m key of None \<Rightarrow> Inr (0, False) | Some v \<Rightarrow> Inr (v, True)))"

text \<open>
  Modelled from the spec: \<open>synchronization.h\<close> is not part of the file. The lock is
  reentrant: the thread that holds it may take it again. Seen from the thread that runs
  a call it is a hold count, \<open>None\<close> before \<open>reentrant_mutex_init\<close>, which leaves it
  unlocked. Waiting for another thread to release the lock is outside this sequential
  view.
\<close>

type_synonym reentrant_mutex_t = "nat option"

definition reentrant_mutex_init :: reentrant_mutex_t where
  \<comment> \<open>Modelled from the spec: the missing \<open>synchronization.h\<close>; the lock starts unlocked.\<close>
  "reentrant_mutex_init = Some 0"

definition reentrant_mutex_lock :: "reentrant_mutex_t \<Rightarrow> error + reentrant_mutex_t" where
  \<comment> \<open>Modelled from the spec: the missing \<open>synchronization.h\<close>; one more hold.\<close>
  "reentrant_mutex_lock m = (case m of None \<Rightarrow> Inl Mutex_misuse | Some n \<Rightarrow> Inr (Some (Suc n)))"

definition reentrant_mutex_unlock :: "reentrant_mutex_t \<Rightarrow> error + reentrant_mutex_t" where
  \<comment> \<open>Modelled from the spec: the missing \<open>synchronization.h\<close>; one hold less.\<close>
  "reentrant_mutex_unlock m =
     (case m of None \<Rightarrow> Inl Mutex_misuse | Some 0 \<Rightarrow> Inl Mutex_misuse | Some (Suc n) \<Rightarrow> Inr (Some n))"

subsection \<open>The policy table, the struct and the world\<close>

text \<open>
  \<open>schedulerImpl_t\<close> is the table of function pointers a policy fills in. A policy works
  on memory of its own, of type \<open>'p\<close>, which it reaches through the handle \<open>implDetails\<close>;
  a callback gets the arguments of the C call and that memory, and returns its result and
  the memory afterwards. A callback that aborts, or blocks for good, does not return; the
  embedding follows the calls that do. Pointers the file only passes on (\<open>args\<close>, \<open>lcbn\<close>, \<open>pointDetails\<close>,
  \<open>implDetails\<close>) are addresses.
\<close>

record 'p schedulerImpl_t =
  register_lcbn :: "addr \<Rightarrow> addr \<Rightarrow> 'p \<Rightarrow> 'p"
  next_lcbn_type :: "addr \<Rightarrow> 'p \<Rightarrow> int \<times> 'p"
  thread_yield :: "int \<Rightarrow> addr \<Rightarrow> addr \<Rightarrow> 'p \<Rightarrow> 'p"
  emit :: "string \<Rightarrow> addr \<Rightarrow> 'p \<Rightarrow> 'p"
  lcbns_remaining :: "addr \<Rightarrow> 'p \<Rightarrow> int \<times> 'p"
  has_diverged :: "addr \<Rightarrow> 'p \<Rightarrow> int \<times> 'p"

text \<open>
  The struct \<open>scheduler\<close>, field by field. \<open>schedule_file\<close> is the 1024 bytes of the
  buffer. \<open>tidToType\<close> is the pointer together with the map behind it, \<open>impl\<close> is \<open>None\<close>
  while its function pointers are null.
\<close>

record 'p scheduler_t =
  magic :: int
  type :: int
  mode :: int
  schedule_file :: string
  args :: addr
  n_executed :: int
  tidToType :: "map_t option"
  mutex :: reentrant_mutex_t
  impl :: "'p schedulerImpl_t option"
  implDetails :: addr

text \<open>
  The calls that leave the file and may change something there, in the order they are
  made. The log is not a variable of the program; it records which collaborator was
  called, with what, and when.
\<close>

datatype call =
    Call_map_create
  | Call_reentrant_mutex_init
  | Call_cbTree_init int addr
  | Call_fuzzer_timer_init int addr
  | Call_fuzzer_threadOrder_init int addr
  | Call_map_insert int int
  | Call_register_lcbn addr addr
  | Call_next_lcbn_type addr
  | Call_thread_yield int addr addr
  | Call_emit string addr
  | Call_lcbns_remaining addr
  | Call_has_diverged addr
  | Call_reentrant_mutex_lock
  | Call_reentrant_mutex_unlock

record 'p world =
  scheduler_initialized :: int
  scheduler :: "'p scheduler_t"
  policy_mem :: 'p
  calls :: "call list"

text \<open>
  What the build decides: which policies are compiled in, the three constructors
  (\<open>scheduler_cbTree_init\<close> and its siblings take the mode and \<open>args\<close>, and fill in the
  table and the handle, or abort), and whether \<open>map_create\<close> can allocate.
\<close>

record 'p build =
  ENABLE_SCHEDULER_CBTREE :: bool
  ENABLE_SCHEDULER_FUZZER_TIMER :: bool
  ENABLE_SCHEDULER_FUZZER_THREAD_ORDER :: bool
  scheduler_cbTree_init :: "int \<Rightarrow> addr \<Rightarrow> error + ('p schedulerImpl_t \<times> addr \<times> 'p)"
  scheduler_fuzzer_timer_init :: "int \<Rightarrow> addr \<Rightarrow> error + ('p schedulerImpl_t \<times> addr \<times> 'p)"
  scheduler_fuzzer_threadOrder_init :: "int \<Rightarrow> addr \<Rightarrow> error + ('p schedulerImpl_t \<times> addr \<times> 'p)"
  map_create_allocates :: bool

subsection \<open>Initialisation\<close>

definition scheduler__looks_valid :: "'p world \<Rightarrow> bool" where
  "scheduler__looks_valid w \<longleftrightarrow>
     scheduler_initialized w \<noteq> 0 \<and> magic (scheduler w) = SCHEDULER_MAGIC"

text \<open>
  A constructor call \<open>f(mode, args, &scheduler.impl, &scheduler.implDetails)\<close> with the
  result \<open>r\<close>: the table and the handle are stored in the struct.
\<close>

definition policy_constructed ::
  "call \<Rightarrow> error + ('p schedulerImpl_t \<times> addr \<times> 'p) \<Rightarrow> 'p world \<Rightarrow> error + 'p world" where
  "policy_constructed c r w =
     (case r of
        Inl e \<Rightarrow> Inl e
      | Inr (i, d, m) \<Rightarrow>
          Inr (w\<lparr>scheduler := (scheduler w)\<lparr>impl := Some i, implDetails := d\<rparr>,
                 policy_mem := m, calls := calls w @ [c]\<rparr>))"

text \<open>
  \<open>scheduler_init\<close> asserts \<open>!initialized\<close>. The file declares no \<open>initialized\<close> (its flag
  is \<open>scheduler_initialized\<close>), so the value that name has at the call is an argument, the
  third. The function assigns neither. The parameters \<open>type\<close>, \<open>mode\<close>, \<open>schedule_file\<close>
  and \<open>args\<close> carry a prime, their plain names being the fields of the struct.

  In the switch only \<open>SCHEDULER_TYPE_CBTREE\<close> is a \<open>case\<close>. The next two names are written
  without \<open>case\<close>, which makes them statement labels: control reaches them by falling
  through from above, and every other value of \<open>scheduler.type\<close> goes to \<open>default\<close>.
  Each constructor call and its \<open>break\<close> sit inside an \<open>#if\<close>.
\<close>

definition scheduler_init ::
  "header \<Rightarrow> 'p build \<Rightarrow> int \<Rightarrow> int \<Rightarrow> int \<Rightarrow> string \<Rightarrow> addr \<Rightarrow> 'p world \<Rightarrow> error + 'p world" where
  "scheduler_init h b initialized type' mode' schedule_file' args' w =
     (if initialized \<noteq> 0 then Inl (Assertion_failed A_not_initialized)
      else
        let w1 = w\<lparr>scheduler := (scheduler w)
                     \<lparr>magic := SCHEDULER_MAGIC, type := type', mode := mode',
                      schedule_file := strncpy schedule_file' 1024, args := args',
                      n_executed := 0, tidToType := map_create (map_create_allocates b)\<rparr>,
                   calls := calls w @ [Call_map_create]\<rparr>
        in if tidToType (scheduler w1) = None then Inl (Assertion_failed A_map_not_NULL)
        else
          let w2 = w1\<lparr>scheduler := (scheduler w1)\<lparr>mutex := reentrant_mutex_init\<rparr>,
                      calls := calls w1 @ [Call_reentrant_mutex_init]\<rparr>
          in if type (scheduler w2) = SCHEDULER_TYPE_CBTREE h then
               (if ENABLE_SCHEDULER_CBTREE b then
                  policy_constructed (Call_cbTree_init mode' args')
                    (scheduler_cbTree_init b mode' args') w2
                else if ENABLE_SCHEDULER_FUZZER_TIMER b then
                  policy_constructed (Call_fuzzer_timer_init mode' args')
                    (scheduler_fuzzer_timer_init b mode' args') w2
                else if ENABLE_SCHEDULER_FUZZER_THREAD_ORDER b then
                  policy_constructed (Call_fuzzer_threadOrder_init mode' args')
                    (scheduler_fuzzer_threadOrder_init b mode' args') w2
                else Inl (Assertion_failed A_how_did_we_get_here))
             else Inl (Assertion_failed A_how_did_we_get_here))"

subsection \<open>The public operations\<close>

text \<open>
  \<open>uv_thread_t\<close> is declared outside the file, and the registry is keyed by \<open>int\<close>: both
  \<open>scheduler_register_thread\<close> and \<open>scheduler__get_thread_type\<close> cast the thread identity
  with \<open>(int)\<close>. The cast is the parameter \<open>to_int\<close>; \<open>self\<close> is what \<open>uv_thread_self()\<close>
  returns in the calling thread.
\<close>

definition scheduler_register_thread ::
  "('tid \<Rightarrow> int) \<Rightarrow> 'tid \<Rightarrow> int \<Rightarrow> 'p world \<Rightarrow> error + 'p world" where
  "scheduler_register_thread to_int self type' w =
     (if \<not> scheduler__looks_valid w then Inl (Assertion_failed A_looks_valid)
      else case map_insert (tidToType (scheduler w)) (to_int self) type' of
             Inl e \<Rightarrow> Inl e
           | Inr m \<Rightarrow>
               Inr (w\<lparr>scheduler := (scheduler w)\<lparr>tidToType := m\<rparr>,
                      calls := calls w @ [Call_map_insert (to_int self) type']\<rparr>))"

definition scheduler_register_lcbn :: "addr \<Rightarrow> 'p world \<Rightarrow> error + 'p world" where
  "scheduler_register_lcbn lcbn w =
     (if \<not> scheduler__looks_valid w then Inl (Assertion_failed A_looks_valid)
      else case impl (scheduler w) of
             None \<Rightarrow> Inl Null_pointer
           | Some i \<Rightarrow>
               Inr (w\<lparr>policy_mem :=
                        register_lcbn i lcbn (implDetails (scheduler w)) (policy_mem w),
                      calls := calls w @ [Call_register_lcbn lcbn (implDetails (scheduler w))]\<rparr>))"

definition scheduler_next_lcbn_type :: "'p world \<Rightarrow> error + (int \<times> 'p world)" where
  "scheduler_next_lcbn_type w =
     (if \<not> scheduler__looks_valid w then Inl (Assertion_failed A_looks_valid)
      else case impl (scheduler w) of
             None \<Rightarrow> Inl Null_pointer
           | Some i \<Rightarrow>
               (let (ret, m) = next_lcbn_type i (implDetails (scheduler w)) (policy_mem w)
                in Inr (ret, w\<lparr>policy_mem := m,
                              calls := calls w @ [Call_next_lcbn_type (implDetails (scheduler w))]\<rparr>)))"

definition scheduler_thread_yield :: "int \<Rightarrow> addr \<Rightarrow> 'p world \<Rightarrow> error + 'p world" where
  "scheduler_thread_yield point pointDetails w =
     (if \<not> scheduler__looks_valid w then Inl (Assertion_failed A_looks_valid)
      else case impl (scheduler w) of
             None \<Rightarrow> Inl Null_pointer
           | Some i \<Rightarrow>
               Inr (w\<lparr>policy_mem :=
                        thread_yield i point pointDetails (implDetails (scheduler w)) (policy_mem w),
                      calls := calls w @
                        [Call_thread_yield point pointDetails (implDetails (scheduler w))]\<rparr>))"

text \<open>
  \<open>scheduler_emit\<close> builds the path in the local \<open>char output_file[1024]\<close>, passes it to
  the policy and returns the address of that array. The lifetime of the array ends with
  the call, so what the caller gets is a pointer with nothing to read behind it:
  \<open>Dangling\<close>. The string the function built is the argument of the policy's \<open>emit\<close>.
\<close>

datatype returned_pointer = Dangling

definition scheduler_emit :: "header \<Rightarrow> 'p world \<Rightarrow> error + (returned_pointer \<times> 'p world)" where
  "scheduler_emit h w =
     (if \<not> scheduler__looks_valid w then Inl (Assertion_failed A_looks_valid)
      else case strcpy 1024 (schedule_file (scheduler w)) of
             Inl e \<Rightarrow> Inl e
           | Inr copied \<Rightarrow>
               (case (if mode (scheduler w) = SCHEDULER_MODE_REPLAY h
                      then strcat 1024 copied ''-replay'' else Inr copied) of
                  Inl e \<Rightarrow> Inl e
                | Inr output_file \<Rightarrow>
                    (case impl (scheduler w) of
                       None \<Rightarrow> Inl Null_pointer
                     | Some i \<Rightarrow>
                         Inr (Dangling,
                              w\<lparr>policy_mem :=
                                  emit i output_file (implDetails (scheduler w)) (policy_mem w),
                                calls := calls w @
                                  [Call_emit output_file (implDetails (scheduler w))]\<rparr>))))"

definition scheduler_lcbns_remaining :: "'p world \<Rightarrow> error + (int \<times> 'p world)" where
  "scheduler_lcbns_remaining w =
     (if \<not> scheduler__looks_valid w then Inl (Assertion_failed A_looks_valid)
      else case impl (scheduler w) of
             None \<Rightarrow> Inl Null_pointer
           | Some i \<Rightarrow>
               (let (n_remaining, m) = lcbns_remaining i (implDetails (scheduler w)) (policy_mem w)
                in Inr (n_remaining,
                        w\<lparr>policy_mem := m,
                          calls := calls w @ [Call_lcbns_remaining (implDetails (scheduler w))]\<rparr>)))"

definition scheduler_schedule_has_diverged :: "'p world \<Rightarrow> error + (int \<times> 'p world)" where
  "scheduler_schedule_has_diverged w =
     (if \<not> scheduler__looks_valid w then Inl (Assertion_failed A_looks_valid)
      else case impl (scheduler w) of
             None \<Rightarrow> Inl Null_pointer
           | Some i \<Rightarrow>
               (let (diverged, m) = has_diverged i (implDetails (scheduler w)) (policy_mem w)
                in Inr (diverged,
                        w\<lparr>policy_mem := m,
                          calls := calls w @ [Call_has_diverged (implDetails (scheduler w))]\<rparr>)))"

definition scheduler_n_executed :: "'p world \<Rightarrow> error + int" where
  "scheduler_n_executed w =
     (if \<not> scheduler__looks_valid w then Inl (Assertion_failed A_looks_valid)
      else Inr (n_executed (scheduler w)))"

definition scheduler_get_scheduler_mode :: "'p world \<Rightarrow> error + int" where
  "scheduler_get_scheduler_mode w =
     (if \<not> scheduler__looks_valid w then Inl (Assertion_failed A_looks_valid)
      else Inr (mode (scheduler w)))"

subsection \<open>The protected operations\<close>

definition scheduler__lock :: "'p world \<Rightarrow> error + 'p world" where
  "scheduler__lock w =
     (case reentrant_mutex_lock (mutex (scheduler w)) of
        Inl e \<Rightarrow> Inl e
      | Inr m \<Rightarrow>
          Inr (w\<lparr>scheduler := (scheduler w)\<lparr>mutex := m\<rparr>,
                 calls := calls w @ [Call_reentrant_mutex_lock]\<rparr>))"

definition scheduler__unlock :: "'p world \<Rightarrow> error + 'p world" where
  "scheduler__unlock w =
     (case reentrant_mutex_unlock (mutex (scheduler w)) of
        Inl e \<Rightarrow> Inl e
      | Inr m \<Rightarrow>
          Inr (w\<lparr>scheduler := (scheduler w)\<lparr>mutex := m\<rparr>,
                 calls := calls w @ [Call_reentrant_mutex_unlock]\<rparr>))"

definition scheduler__get_thread_type :: "('tid \<Rightarrow> int) \<Rightarrow> 'tid \<Rightarrow> 'p world \<Rightarrow> error + int" where
  "scheduler__get_thread_type to_int tid w =
     (case map_lookup (tidToType (scheduler w)) (to_int tid) of
        Inl e \<Rightarrow> Inl e
      | Inr (type', found) \<Rightarrow> if found then Inr type' else Inl (Assertion_failed A_found))"

subsection \<open>Sequences of public operations\<close>

text \<open>
  The nine public operations other than \<open>scheduler_init\<close>, as data, and a run of them from
  one thread or several: a run ends at the first call that aborts.
\<close>

datatype 'tid facade_op =
    Op_register_thread 'tid int
  | Op_register_lcbn addr
  | Op_next_lcbn_type
  | Op_thread_yield int addr
  | Op_emit
  | Op_lcbns_remaining
  | Op_schedule_has_diverged
  | Op_n_executed
  | Op_get_scheduler_mode

fun facade_step :: "header \<Rightarrow> ('tid \<Rightarrow> int) \<Rightarrow> 'tid facade_op \<Rightarrow> 'p world \<Rightarrow> error + 'p world" where
  "facade_step h to_int (Op_register_thread self type') w = scheduler_register_thread to_int self type' w"
| "facade_step h to_int (Op_register_lcbn lcbn) w = scheduler_register_lcbn lcbn w"
| "facade_step h to_int Op_next_lcbn_type w = map_sum id snd (scheduler_next_lcbn_type w)"
| "facade_step h to_int (Op_thread_yield point pointDetails) w = scheduler_thread_yield point pointDetails w"
| "facade_step h to_int Op_emit w = map_sum id snd (scheduler_emit h w)"
| "facade_step h to_int Op_lcbns_remaining w = map_sum id snd (scheduler_lcbns_remaining w)"
| "facade_step h to_int Op_schedule_has_diverged w = map_sum id snd (scheduler_schedule_has_diverged w)"
| "facade_step h to_int Op_n_executed w = map_sum id (\<lambda>_. w) (scheduler_n_executed w)"
| "facade_step h to_int Op_get_scheduler_mode w = map_sum id (\<lambda>_. w) (scheduler_get_scheduler_mode w)"

fun facade_run :: "header \<Rightarrow> ('tid \<Rightarrow> int) \<Rightarrow> 'tid facade_op list \<Rightarrow> 'p world \<Rightarrow> error + 'p world" where
  "facade_run h to_int [] w = Inr w"
| "facade_run h to_int (x # xs) w =
     (case facade_step h to_int x w of Inl e \<Rightarrow> Inl e | Inr w' \<Rightarrow> facade_run h to_int xs w')"

subsection \<open>Concrete worlds\<close>

text \<open>
  The world when the process starts: objects of static storage are zero, the flag is
  initialised to 0, nothing has been called. The policy owns no memory yet; \<open>m\<close> stands
  for it.
\<close>

definition startup :: "'p \<Rightarrow> 'p world" where
  "startup m =
     \<lparr>scheduler_initialized = 0,
      scheduler = \<lparr>magic = 0, type = 0, mode = 0, schedule_file = replicate 1024 NUL,
                   args = 0, n_executed = 0, tidToType = None, mutex = None, impl = None,
                   implDetails = 0\<rparr>,
      policy_mem = m, calls = []\<rparr>"

text \<open>
  A header in the usual style, the enumerators counted from 0 and \<open>SCHEDULER_MODE_MAX\<close>
  the last mode, and a build with all three policies compiled in. The policy is a small
  one that counts the callbacks registered with it; its three constructors differ in the
  handle they return.
\<close>

definition header0 :: header where
  "header0 = \<lparr>SCHEDULER_MODE_MIN = 0, SCHEDULER_MODE_MAX = 1,
              SCHEDULER_MODE_REPLAY = 1, SCHEDULER_TYPE_CBTREE = 0\<rparr>"

definition counting_policy :: "nat schedulerImpl_t" where
  "counting_policy =
     \<lparr>register_lcbn = (\<lambda>lcbn d m. Suc m),
      next_lcbn_type = (\<lambda>d m. (0, m)),
      thread_yield = (\<lambda>point pd d m. m),
      emit = (\<lambda>path d m. m),
      lcbns_remaining = (\<lambda>d m. (int m, m)),
      has_diverged = (\<lambda>d m. (0, m))\<rparr>"

definition build0 :: "nat build" where
  "build0 =
     \<lparr>ENABLE_SCHEDULER_CBTREE = True,
      ENABLE_SCHEDULER_FUZZER_TIMER = True,
      ENABLE_SCHEDULER_FUZZER_THREAD_ORDER = True,
      scheduler_cbTree_init = (\<lambda>mode args. Inr (counting_policy, 1, 0)),
      scheduler_fuzzer_timer_init = (\<lambda>mode args. Inr (counting_policy, 2, 0)),
      scheduler_fuzzer_threadOrder_init = (\<lambda>mode args. Inr (counting_policy, 3, 0)),
      map_create_allocates = True\<rparr>"

text \<open>
  A world in which the validation passes: the one \<open>scheduler_init\<close> builds from the
  start of the process, with the flag \<open>scheduler_initialized\<close> set from outside the file.
\<close>

definition running :: "int \<Rightarrow> string \<Rightarrow> nat world" where
  "running mode' path =
     \<lparr>scheduler_initialized = 1,
      scheduler = \<lparr>magic = SCHEDULER_MAGIC, type = 0, mode = mode',
                   schedule_file = strncpy path 1024,
                   args = 0, n_executed = 0, tidToType = Some Map.empty,
                   mutex = Some 0, impl = Some counting_policy, implDetails = 1\<rparr>,
      policy_mem = 0,
      calls = [Call_map_create, Call_reentrant_mutex_init, Call_cbTree_init mode' 0]\<rparr>"

text \<open>
  On the platform the file is written for, \<open>uv_thread_t\<close> is \<open>pthread_t\<close>, an unsigned
  integer of 64 bits, and \<open>int\<close> has 32: the cast keeps the low 32 bits and reads them as
  a signed number.
\<close>

definition cast_to_int :: "int \<Rightarrow> int" where
  "cast_to_int tid = (tid + 2147483648) mod 4294967296 - 2147483648"

text \<open>
  Worlds used as examples below: the one \<open>scheduler_init\<close> builds from the start of the
  process for a recording run of \<open>run.sched\<close>; and, in runs whose validation passes, the
  worlds after thread 5 has registered with role 1 and yielded, after one yield, after
  \<open>scheduler_emit\<close> in a replay, after the thread \<open>0x7F0000000700\<close> has registered with
  role 1, and after \<open>scheduler__lock\<close>.
\<close>

definition initialised0 :: "nat world" where
  "initialised0 =
     \<lparr>scheduler_initialized = 0,
      scheduler = \<lparr>magic = SCHEDULER_MAGIC, type = 0, mode = 0,
                   schedule_file = strncpy ''run.sched'' 1024,
                   args = 0, n_executed = 0, tidToType = Some Map.empty,
                   mutex = Some 0, impl = Some counting_policy, implDetails = 1\<rparr>,
      policy_mem = 0,
      calls = [Call_map_create, Call_reentrant_mutex_init, Call_cbTree_init 0 0]\<rparr>"

definition registered0 :: "nat world" where
  "registered0 =
     (running 0 ''run.sched'')
       \<lparr>scheduler := (scheduler (running 0 ''run.sched''))\<lparr>tidToType := Some [5 \<mapsto> 1]\<rparr>,
        calls := calls (running 0 ''run.sched'') @ [Call_map_insert 5 1, Call_thread_yield 0 0 1]\<rparr>"

definition yielded0 :: "nat world" where
  "yielded0 = (running 0 ''run.sched'')
     \<lparr>calls := calls (running 0 ''run.sched'') @ [Call_thread_yield 0 0 1]\<rparr>"


definition collided0 :: "nat world" where
  "collided0 = (running 0 ''run.sched'')
     \<lparr>scheduler := (scheduler (running 0 ''run.sched''))\<lparr>tidToType := Some [1792 \<mapsto> 1]\<rparr>,
      calls := calls (running 0 ''run.sched'') @ [Call_map_insert 1792 1]\<rparr>"

definition locked0 :: "nat world" where
  "locked0 = (running 0 ''run.sched'')
     \<lparr>scheduler := (scheduler (running 0 ''run.sched''))\<lparr>mutex := Some 1\<rparr>,
      calls := calls (running 0 ''run.sched'') @ [Call_reentrant_mutex_lock]\<rparr>"

section \<open>Properties\<close>

subsection \<open>Auxiliary facts\<close>

text \<open>What \<open>scheduler_init\<close> writes, and what it leaves alone.\<close>

lemmas op_defs = scheduler_register_thread_def scheduler_register_lcbn_def
  scheduler_next_lcbn_type_def scheduler_thread_yield_def scheduler_emit_def
  scheduler_lcbns_remaining_def scheduler_schedule_has_diverged_def
  scheduler_n_executed_def scheduler_get_scheduler_mode_def

lemma policy_constructed_Inr:
  "policy_constructed c r w = Inr w' \<Longrightarrow>
     \<exists>i d m. r = Inr (i, d, m) \<and>
       w' = w\<lparr>scheduler := (scheduler w)\<lparr>impl := Some i, implDetails := d\<rparr>,
              policy_mem := m, calls := calls w @ [c]\<rparr>"
  by (auto simp: policy_constructed_def split: sum.splits)

lemma scheduler_init_flag:
  "scheduler_init h b ini ty md f a w = Inr w' \<Longrightarrow> scheduler_initialized w' = scheduler_initialized w"
  by (auto simp: scheduler_init_def Let_def split: if_splits dest!: policy_constructed_Inr)

lemma scheduler_init_fields:
  assumes "scheduler_init h b ini ty md f a w = Inr w'"
  shows "magic (scheduler w') = SCHEDULER_MAGIC" "type (scheduler w') = ty"
    "mode (scheduler w') = md" "schedule_file (scheduler w') = strncpy f 1024"
    "args (scheduler w') = a" "n_executed (scheduler w') = 0"
    "tidToType (scheduler w') = Some Map.empty" "mutex (scheduler w') = Some 0"
  using assms
  by (auto simp: scheduler_init_def Let_def map_create_def reentrant_mutex_init_def
      split: if_splits dest!: policy_constructed_Inr)

lemma init_startup:
  "scheduler_init header0 build0 0 0 0 ''run.sched'' 0 (startup 0) = Inr initialised0"
  by (simp add: scheduler_init_def header0_def build0_def startup_def initialised0_def
      Let_def map_create_def reentrant_mutex_init_def policy_constructed_def)

lemma init_running:
  "scheduler_init header0 build0 0 0 md path 0 ((startup 0)\<lparr>scheduler_initialized := 1\<rparr>)
     = Inr (running md path)"
  by (simp add: scheduler_init_def header0_def build0_def startup_def running_def
      Let_def map_create_def reentrant_mutex_init_def policy_constructed_def)

lemma running_valid: "scheduler__looks_valid (running md path)"
  by (simp add: running_def scheduler__looks_valid_def)

text \<open>
  What a public operation leaves alone: everything in the struct but the registry, and
  the flag. An operation other than \<open>scheduler_register_thread\<close> leaves the registry
  alone as well. It follows that a run keeps the validation as it found it.
\<close>

lemma facade_step_frame:
  "facade_step h to_int x w = Inr w' \<Longrightarrow>
     scheduler w' = (scheduler w)\<lparr>tidToType := tidToType (scheduler w')\<rparr> \<and>
     scheduler_initialized w' = scheduler_initialized w"
  by (cases x) (auto simp: op_defs map_insert_def split: if_splits option.splits sum.splits prod.splits)

lemma facade_run_frame:
  "facade_run h to_int xs w = Inr w' \<Longrightarrow>
     scheduler w' = (scheduler w)\<lparr>tidToType := tidToType (scheduler w')\<rparr> \<and>
     scheduler_initialized w' = scheduler_initialized w"
proof (induction xs arbitrary: w)
  case Nil
  then show ?case by simp
next
  case (Cons x xs)
  from Cons.prems obtain w1 where s: "facade_step h to_int x w = Inr w1"
    and r: "facade_run h to_int xs w1 = Inr w'"
    by (auto split: sum.splits)
  from facade_step_frame[OF s] obtain m1 where
    s1: "scheduler w1 = (scheduler w)\<lparr>tidToType := m1\<rparr>"
    and f1: "scheduler_initialized w1 = scheduler_initialized w" by blast
  from Cons.IH[OF r] have
    s2: "scheduler w' = (scheduler w1)\<lparr>tidToType := tidToType (scheduler w')\<rparr>"
    and f2: "scheduler_initialized w' = scheduler_initialized w1" by simp_all
  from s2 have "scheduler w' = (scheduler w)\<lparr>tidToType := tidToType (scheduler w')\<rparr>"
    unfolding s1 by simp
  with f1 f2 show ?case by simp
qed

lemma facade_step_invalid:
  "\<not> scheduler__looks_valid w \<Longrightarrow> facade_step h to_int x w = Inl (Assertion_failed A_looks_valid)"
  by (cases x) (auto simp: op_defs)

lemma facade_run_valid:
  assumes "facade_run h to_int xs w = Inr w'"
  shows "scheduler__looks_valid w' = scheduler__looks_valid w"
proof -
  from facade_run_frame[OF assms]
  have "magic (scheduler w') = magic ((scheduler w)\<lparr>tidToType := tidToType (scheduler w')\<rparr>)"
    and "scheduler_initialized w' = scheduler_initialized w" by simp_all
  then show ?thesis by (simp add: scheduler__looks_valid_def)
qed

lemma facade_run_n_executed:
  assumes "facade_run h to_int xs w = Inr w'"
  shows "n_executed (scheduler w') = n_executed (scheduler w)"
proof -
  from facade_run_frame[OF assms]
  have "n_executed (scheduler w') = n_executed ((scheduler w)\<lparr>tidToType := tidToType (scheduler w')\<rparr>)"
    by simp
  then show ?thesis by simp
qed



lemma facade_run_append:
  "facade_run h to_int (xs @ ys) w = Inr w' \<Longrightarrow>
     \<exists>w1. facade_run h to_int xs w = Inr w1 \<and> facade_run h to_int ys w1 = Inr w'"
  by (induction xs arbitrary: w) (auto split: sum.splits)

text \<open>The registry along a run: a key nobody registers under keeps what it had.\<close>

lemma facade_step_registry:
  assumes "facade_step h to_int x w = Inr w'" and "tidToType (scheduler w) = Some m"
  shows "tidToType (scheduler w') =
           Some (case x of Op_register_thread t r \<Rightarrow> m(to_int t \<mapsto> r) | _ \<Rightarrow> m)"
  using assms
  by (cases x) (auto simp: op_defs map_insert_def split: if_splits option.splits sum.splits prod.splits)

lemma facade_run_registry_some:
  assumes "facade_run h to_int xs w = Inr w'" and "tidToType (scheduler w) = Some m"
  shows "\<exists>m'. tidToType (scheduler w') = Some m'"
  using assms
proof (induction xs arbitrary: w m)
  case Nil
  then show ?case by simp
next
  case (Cons x xs)
  from Cons.prems(1) obtain w1 where s: "facade_step h to_int x w = Inr w1"
    and r: "facade_run h to_int xs w1 = Inr w'"
    by (auto split: sum.splits)
  from Cons.IH[OF r facade_step_registry[OF s Cons.prems(2)]] show ?case .
qed

lemma registry_absent:
  assumes "facade_run h to_int xs w = Inr w'" and "tidToType (scheduler w) = Some m"
    and "m k = None"
    and "\<forall>t r. Op_register_thread t r \<in> set xs \<longrightarrow> to_int t \<noteq> k"
  shows "\<exists>m'. tidToType (scheduler w') = Some m' \<and> m' k = None"
  using assms
proof (induction xs arbitrary: w m)
  case Nil
  then show ?case by simp
next
  case (Cons x xs)
  from Cons.prems(1) obtain w1 where s: "facade_step h to_int x w = Inr w1"
    and r: "facade_run h to_int xs w1 = Inr w'"
    by (auto split: sum.splits)
  let ?m1 = "case x of Op_register_thread t r \<Rightarrow> m(to_int t \<mapsto> r) | _ \<Rightarrow> m"
  have m1: "tidToType (scheduler w1) = Some ?m1" by (rule facade_step_registry[OF s Cons.prems(2)])
  from Cons.prems(3,4) have k: "?m1 k = None" by (cases x) auto
  from Cons.prems(4) have "\<forall>t r. Op_register_thread t r \<in> set xs \<longrightarrow> to_int t \<noteq> k" by simp
  from Cons.IH[OF r m1 k this] show ?case .
qed

lemma registry_kept:
  assumes "facade_run h to_int xs w = Inr w'" and "tidToType (scheduler w) = Some m"
    and "m k = Some v"
    and "\<forall>t r. Op_register_thread t r \<in> set xs \<longrightarrow> to_int t \<noteq> k"
  shows "\<exists>m'. tidToType (scheduler w') = Some m' \<and> m' k = Some v"
  using assms
proof (induction xs arbitrary: w m)
  case Nil
  then show ?case by simp
next
  case (Cons x xs)
  from Cons.prems(1) obtain w1 where s: "facade_step h to_int x w = Inr w1"
    and r: "facade_run h to_int xs w1 = Inr w'"
    by (auto split: sum.splits)
  let ?m1 = "case x of Op_register_thread t r \<Rightarrow> m(to_int t \<mapsto> r) | _ \<Rightarrow> m"
  have m1: "tidToType (scheduler w1) = Some ?m1" by (rule facade_step_registry[OF s Cons.prems(2)])
  from Cons.prems(3,4) have k: "?m1 k = Some v" by (cases x) auto
  from Cons.prems(4) have "\<forall>t r. Op_register_thread t r \<in> set xs \<longrightarrow> to_int t \<noteq> k" by simp
  from Cons.IH[OF r m1 k this] show ?case .
qed

lemma run_registered0:
  "facade_run header0 id [Op_register_thread (5::int) 1, Op_thread_yield 0 0] (running 0 ''run.sched'')
     = Inr registered0"
  by (simp add: scheduler_register_thread_def scheduler_thread_yield_def
      scheduler__looks_valid_def map_insert_def registered0_def running_def counting_policy_def)

text \<open>Strings and the 1024-byte buffer.\<close>

lemma c_string_no_NUL: "NUL \<notin> set (c_string bytes)"
  unfolding c_string_def by (metis (mono_tags, lifting) set_takeWhileD)

lemma c_string_idem: "NUL \<notin> set s \<Longrightarrow> c_string s = s"
  unfolding c_string_def by (induction s) auto

lemma c_string_padded: "NUL \<notin> set s \<Longrightarrow> c_string (s @ replicate n NUL) = s"
  unfolding c_string_def by (induction s) auto

lemma length_strncpy: "length (strncpy src n) = n"
  by (simp add: strncpy_def)

lemma strncpy_short:
  assumes "length (c_string src) < n"
  shows "c_string (strncpy src n) = c_string src" "NUL \<in> set (strncpy src n)"
  using assms by (simp_all add: strncpy_def c_string_padded c_string_no_NUL)

lemma strncpy_long:
  assumes "n \<le> length (c_string src)"
  shows "strncpy src n = take n (c_string src)" "NUL \<notin> set (strncpy src n)"
  using assms c_string_no_NUL[of src] by (auto simp: strncpy_def dest: in_set_takeD)


lemma emit_unterminated:
  assumes "scheduler__looks_valid w" and "schedule_file (scheduler w) = strncpy path 1024"
    and "1024 \<le> length (c_string path)"
  shows "scheduler_emit h w = Inl Buffer_overflow"
  using assms strncpy_long(2)[OF assms(3)] by (simp add: scheduler_emit_def strcpy_def)


text \<open>A public operation makes at most one call out of the file, and none to the mutex.\<close>

lemma facade_step_calls:
  assumes "facade_step h to_int x w = Inr w'"
  shows "mutex (scheduler w') = mutex (scheduler w) \<and>
         (\<exists>cs. calls w' = calls w @ cs \<and> length cs \<le> 1 \<and>
               Call_reentrant_mutex_lock \<notin> set cs \<and> Call_reentrant_mutex_unlock \<notin> set cs)"
  using assms
  by (cases x) (auto simp: op_defs map_insert_def split: if_splits option.splits sum.splits prod.splits)

subsection \<open>Initialisation and validation\<close>

text \<open>
  C1. The claim: after a successful \<open>scheduler_init\<close> every later public operation passes
  the validation \<open>scheduler__looks_valid()\<close> and proceeds. The code: \<open>scheduler_init\<close>
  never assigns \<open>scheduler_initialized\<close>, which the validation reads. In a process that
  starts with the flag at 0, as the file initialises it, a successful \<open>scheduler_init\<close>
  leaves a world in which every one of the nine public operations aborts on its first
  line.
\<close>

theorem validation_fails_after_init:
  assumes "scheduler_initialized w = 0"
    and "scheduler_init h b ini ty md f a w = Inr w'"
  shows "\<not> scheduler__looks_valid w' \<and>
         facade_step h to_int x w' = Inl (Assertion_failed A_looks_valid)"
proof -
  from scheduler_init_flag[OF assms(2)] assms(1) have "\<not> scheduler__looks_valid w'"
    by (simp add: scheduler__looks_valid_def)
  then show ?thesis by (simp add: facade_step_invalid)
qed

theorem validation_fails_after_init_witness:
  "scheduler_initialized (startup (0::nat)) = 0 \<and>
   scheduler_init header0 build0 0 0 0 ''run.sched'' 0 (startup 0) = Inr initialised0 \<and>
   \<not> scheduler__looks_valid initialised0 \<and>
   facade_step header0 (id :: int \<Rightarrow> int) Op_get_scheduler_mode initialised0
     = Inl (Assertion_failed A_looks_valid)"
proof -
  have f: "scheduler_initialized (startup (0::nat)) = 0" by (simp add: startup_def)
  from validation_fails_after_init[OF f init_startup, of id Op_get_scheduler_mode] f init_startup
  show ?thesis by simp
qed

text \<open>
  C2. The claim: for each of the three policy kinds, compiled in, \<open>scheduler_init\<close> calls
  that kind's constructor, and only an unknown or absent kind reaches the fatal branch.
  The code: a kind other than \<open>SCHEDULER_TYPE_CBTREE\<close> reaches \<open>default\<close> and aborts there,
  whatever is compiled in, because the other two kinds are labels, not cases.
\<close>

theorem only_cbtree_is_a_case:
  assumes "ty \<noteq> SCHEDULER_TYPE_CBTREE h" and "ini = 0" and "map_create_allocates b"
  shows "scheduler_init h b ini ty md f a w = Inl (Assertion_failed A_how_did_we_get_here)"
  using assms by (simp add: scheduler_init_def Let_def map_create_def)

theorem only_cbtree_is_a_case_witness:
  "(1::int) \<noteq> SCHEDULER_TYPE_CBTREE header0 \<and> map_create_allocates build0 \<and>
   ENABLE_SCHEDULER_FUZZER_TIMER build0 \<and>
   scheduler_init header0 build0 0 1 0 ''run.sched'' 0 (startup 0)
     = Inl (Assertion_failed A_how_did_we_get_here)"
proof -
  have t: "(1::int) \<noteq> SCHEDULER_TYPE_CBTREE header0" by (simp add: header0_def)
  have m: "map_create_allocates build0" by (simp add: build0_def)
  from only_cbtree_is_a_case[OF t refl m, of 0 "''run.sched''" 0 "startup 0"] t m
  show ?thesis by (simp add: build0_def)
qed

text \<open>
  What the switch does for \<open>SCHEDULER_TYPE_CBTREE\<close>: its own constructor when that is
  compiled in, and otherwise, falling through the \<open>#if\<close>, the constructor of the timer
  fuzzer.
\<close>

lemma cbtree_constructed:
  assumes "ENABLE_SCHEDULER_CBTREE b" and "map_create_allocates b"
    and "scheduler_cbTree_init b md a = Inr (i, d, m)"
  shows "\<exists>w'. scheduler_init h b 0 (SCHEDULER_TYPE_CBTREE h) md f a w = Inr w' \<and>
           impl (scheduler w') = Some i \<and> implDetails (scheduler w') = d \<and>
           policy_mem w' = m \<and>
           calls w' = calls w @ [Call_map_create, Call_reentrant_mutex_init, Call_cbTree_init md a]"
  using assms by (simp add: scheduler_init_def Let_def map_create_def policy_constructed_def)

lemma cbtree_falls_through:
  assumes "\<not> ENABLE_SCHEDULER_CBTREE b" and "ENABLE_SCHEDULER_FUZZER_TIMER b"
    and "map_create_allocates b"
    and "scheduler_fuzzer_timer_init b md a = Inr (i, d, m)"
  shows "\<exists>w'. scheduler_init h b 0 (SCHEDULER_TYPE_CBTREE h) md f a w = Inr w' \<and>
           impl (scheduler w') = Some i \<and> implDetails (scheduler w') = d \<and>
           last (calls w') = Call_fuzzer_timer_init md a"
  using assms by (simp add: scheduler_init_def Let_def map_create_def policy_constructed_def)

text \<open>
  C4. The claim: once \<open>scheduler_init\<close> has completed, a second call aborts at its
  assertion instead of building the context again. The code: the assertion reads
  \<open>initialized\<close>, nothing in the file writes it or \<open>scheduler_initialized\<close>, so the second
  call sees what the first saw, passes, and builds the context again: the registry is
  empty again and the counter 0.
\<close>

theorem second_init_succeeds:
  assumes "scheduler_init h b ini ty md f a w = Inr w1"
    and "facade_run h to_int ops w1 = Inr w2"
  shows "scheduler_initialized w2 = scheduler_initialized w \<and>
         (\<exists>w3. scheduler_init h b ini ty md f a w2 = Inr w3 \<and>
               tidToType (scheduler w3) = Some Map.empty \<and>
               n_executed (scheduler w3) = 0)"
proof -
  from assms(1) obtain w3 where i: "scheduler_init h b ini ty md f a w2 = Inr w3"
    by (auto simp: scheduler_init_def Let_def policy_constructed_def split: if_splits sum.splits)
  from scheduler_init_fields[OF i] i scheduler_init_flag[OF assms(1)] facade_run_frame[OF assms(2)]
  show ?thesis by simp
qed

theorem second_init_succeeds_witness:
  "scheduler_init header0 build0 0 0 0 ''run.sched'' 0 (startup 0) = Inr initialised0 \<and>
   facade_run header0 (id :: int \<Rightarrow> int) [] initialised0 = Inr initialised0 \<and>
   scheduler_initialized initialised0 = scheduler_initialized (startup (0::nat)) \<and>
   (\<exists>w3. scheduler_init header0 build0 0 0 0 ''run.sched'' 0 initialised0 = Inr w3 \<and>
         tidToType (scheduler w3) = Some Map.empty \<and> n_executed (scheduler w3) = 0)"
proof -
  have r: "facade_run header0 (id :: int \<Rightarrow> int) [] initialised0 = Inr initialised0" by simp
  from second_init_succeeds[OF init_startup r] init_startup r show ?thesis by simp
qed

subsection \<open>Display names\<close>

text \<open>
  C5. The claim: each value of the four enumerations has a display name, different
  values have different names, and no valid value runs into the assertion. The code:
  \<open>schedule_point_to_string\<close> does not read its argument, so any two schedule points get
  the same answer; and all four functions assert \<open>x < SCHEDULER_MODE_MAX\<close>, so the value
  \<open>SCHEDULER_MODE_MAX\<close>, for which every table reserves its last slot, aborts.
\<close>

theorem point_name_ignores_point:
  "schedule_point_to_string h ty p = schedule_point_to_string h ty q \<and>
   scheduler_type_to_string h (SCHEDULER_MODE_MAX h) = Inl (Assertion_failed A_in_range) \<and>
   scheduler_mode_to_string h (SCHEDULER_MODE_MAX h) = Inl (Assertion_failed A_in_range) \<and>
   thread_type_to_string h (SCHEDULER_MODE_MAX h) = Inl (Assertion_failed A_in_range)"
  by (simp add: schedule_point_to_string_def scheduler_type_to_string_def
      scheduler_mode_to_string_def thread_type_to_string_def)

text \<open>
  The names themselves are pairwise different: two values for which the policy-kind
  function returns the same name are the same value. With the usual header the last
  mode, \<open>SCHEDULER_MODE_REPLAY\<close>, has no name.
\<close>

lemma table_entry_inj:
  assumes "distinct names" and "table_entry names len i = Inr (Some n)"
    and "table_entry names len j = Inr (Some n)"
  shows "i = j"
proof -
  from assms(2) have i: "0 \<le> i" "nat i < length names" "names ! nat i = n"
    by (auto simp: table_entry_def split: if_splits)
  from assms(3) have j: "0 \<le> j" "nat j < length names" "names ! nat j = n"
    by (auto simp: table_entry_def split: if_splits)
  from i(3) j(3) have "names ! nat i = names ! nat j" by simp
  with assms(1) i(2) j(2) have "nat i = nat j" by (simp add: nth_eq_iff_index_eq)
  with i(1) j(1) show ?thesis by simp
qed

lemma names_distinct:
  "distinct scheduler_type_strings" "distinct scheduler_mode_strings"
  "distinct thread_type_strings" "distinct schedule_point_strings"
  by (simp_all add: scheduler_type_strings_def scheduler_mode_strings_def
      thread_type_strings_def schedule_point_strings_def)

lemma type_names_differ:
  assumes "scheduler_type_to_string h x = Inr (Some n)" and "scheduler_type_to_string h y = Inr (Some n)"
  shows "x = y"
proof -
  from assms have "x - SCHEDULER_MODE_MIN h = y - SCHEDULER_MODE_MIN h"
    by (auto simp: scheduler_type_to_string_def split: if_splits
        dest: table_entry_inj[OF names_distinct(1)])
  then show ?thesis by simp
qed

lemma mode_names_last_aborts:
  "scheduler_mode_to_string header0 (SCHEDULER_MODE_REPLAY header0) = Inl (Assertion_failed A_in_range)"
  by (simp add: scheduler_mode_to_string_def header0_def)

subsection \<open>The schedule file path\<close>

text \<open>
  C10. \<open>scheduler_init\<close> stores at most the first 1024 bytes of the path it is given: the
  buffer always holds 1024 bytes, they start with the path or, for a path of 1024 bytes
  or more, are exactly its first 1024 bytes, with no \<open>NUL\<close> among them. A shorter path
  is stored whole. The path plays no part in whether \<open>scheduler_init\<close> succeeds: where it
  succeeds with one path it succeeds with every other.
\<close>

theorem path_buffer:
  assumes "scheduler_init h b ini ty md f a w = Inr w'"
  shows "length (schedule_file (scheduler w')) = 1024 \<and>
         take (length (c_string f)) (schedule_file (scheduler w')) = take 1024 (c_string f) \<and>
         (length (c_string f) < 1024 \<longrightarrow> c_string (schedule_file (scheduler w')) = c_string f) \<and>
         (1024 \<le> length (c_string f) \<longrightarrow>
            schedule_file (scheduler w') = take 1024 (c_string f) \<and>
            NUL \<notin> set (schedule_file (scheduler w'))) \<and>
         (\<exists>w''. scheduler_init h b ini ty md g a w = Inr w'')"
proof -
  have s: "schedule_file (scheduler w') = strncpy f 1024" by (rule scheduler_init_fields(4)[OF assms])
  have t: "take (length (c_string f)) (strncpy f 1024) = take 1024 (c_string f)"
    by (simp add: strncpy_def min_def)
  from assms have e: "\<exists>w''. scheduler_init h b ini ty md g a w = Inr w''"
    by (auto simp: scheduler_init_def Let_def policy_constructed_def split: if_splits sum.splits)
  from s t e show ?thesis
    using strncpy_short(1)[of f 1024] strncpy_long[of 1024 f] by (simp add: length_strncpy)
qed

theorem path_buffer_witness:
  "scheduler_init header0 build0 0 0 0 (replicate 1030 CHR ''a'') 0
     ((startup 0)\<lparr>scheduler_initialized := 1\<rparr>)
     = Inr (running 0 (replicate 1030 CHR ''a'')) \<and>
   length (schedule_file (scheduler (running 0 (replicate 1030 CHR ''a'')))) = 1024 \<and>
   schedule_file (scheduler (running 0 (replicate 1030 CHR ''a''))) = replicate 1024 CHR ''a'' \<and>
   NUL \<notin> set (schedule_file (scheduler (running 0 (replicate 1030 CHR ''a''))))"
proof -
  have n: "NUL \<notin> set (replicate 1030 CHR ''a'')" by (simp add: NUL_def)
  have c: "c_string (replicate 1030 CHR ''a'') = replicate 1030 CHR ''a''"
    by (rule c_string_idem[OF n])
  from path_buffer[OF init_running, of 0 "replicate 1030 CHR ''a''" "[]"] init_running c
  show ?thesis by (simp add: NUL_def)
qed

text \<open>
  C3. The claim: for every mode and every configured path \<open>scheduler_emit\<close> returns the
  path, with \<open>-replay\<close> appended in REPLAY mode, and hands that string to the policy. The
  code builds the string in a local buffer of 1024 bytes without checking its length. A
  path of 1017 characters is stored whole by \<open>scheduler_init\<close>; in REPLAY mode \<open>strcat\<close>
  then needs 1025 bytes. (Where the string fits, the policy gets it and the caller gets
  the address of the dead buffer.)
\<close>

theorem emit_overflows:
  "scheduler_emit header0 (running 1 (replicate 1017 CHR ''a'')) = Inl Buffer_overflow"
proof -
  have n: "NUL \<notin> set (replicate 1017 CHR ''a'')" by (simp add: NUL_def)
  have l: "length (c_string (replicate 1017 CHR ''a'')) < 1024" by (simp add: c_string_idem[OF n])
  have "strcpy 1024 (strncpy (replicate 1017 CHR ''a'') 1024) = Inr (replicate 1017 CHR ''a'')"
    using strncpy_short[OF l] by (simp add: strcpy_def c_string_idem[OF n])
  then show ?thesis
    by (simp add: scheduler_emit_def running_def scheduler__looks_valid_def header0_def strcat_def)
qed

subsection \<open>The thread role registry\<close>

text \<open>
  C6. The claim: the role lookup returns the role a thread registered with, and for a
  thread that never registered it aborts at \<open>assert(found)\<close>. The code keys the registry
  by \<open>(int) tid\<close>. The thread \<open>0x7F0000000700\<close> registers with role 1; the thread
  \<open>0x7F0100000700\<close>, which never registered, has the same low 32 bits, and the lookup
  for it returns role 1.
\<close>

theorem unregistered_thread_gets_a_role:
  "(139637976729344::int) \<noteq> 139642271696640 \<and>
   facade_run header0 cast_to_int [Op_register_thread 139637976729344 1] (running 0 ''run.sched'')
     = Inr collided0 \<and>
   scheduler__get_thread_type cast_to_int 139642271696640 collided0 = Inr 1"
  by (simp add: scheduler_register_thread_def scheduler__looks_valid_def map_insert_def
      collided0_def running_def cast_to_int_def scheduler__get_thread_type_def map_lookup_def)

text \<open>
  C6, as the code has it. The registry knows a thread by the \<open>int\<close> its identity is cast
  to. In a run of public operations that starts with the empty registry
  \<open>scheduler_init\<close> creates, the lookup for a thread that registered with role \<open>r\<close>
  returns \<open>r\<close> when no other registration of the run was made under the same \<open>int\<close>, and
  the lookup for a thread aborts at \<open>assert(found)\<close> when no registration of the run was
  made under its \<open>int\<close>. What a second registration under one \<open>int\<close> does is not said.
\<close>

theorem registry_lookup_by_key:
  assumes run: "facade_run h to_int xs w = Inr w'"
    and fresh: "tidToType (scheduler w) = Some Map.empty"
  shows "(xs = pre @ Op_register_thread t r # post \<and>
          (\<forall>t' r'. Op_register_thread t' r' \<in> set (pre @ post) \<longrightarrow> to_int t' \<noteq> to_int t)
            \<longrightarrow> scheduler__get_thread_type to_int t w' = Inr r) \<and>
         ((\<forall>t' r'. Op_register_thread t' r' \<in> set xs \<longrightarrow> to_int t' \<noteq> to_int t)
            \<longrightarrow> scheduler__get_thread_type to_int t w' = Inl (Assertion_failed A_found))"
proof (intro conjI impI)
  assume a: "xs = pre @ Op_register_thread t r # post \<and>
          (\<forall>t' r'. Op_register_thread t' r' \<in> set (pre @ post) \<longrightarrow> to_int t' \<noteq> to_int t)"
  with run have "facade_run h to_int (pre @ [Op_register_thread t r] @ post) w = Inr w'" by simp
  then obtain w1 w2 where p: "facade_run h to_int pre w = Inr w1"
    and s: "facade_step h to_int (Op_register_thread t r) w1 = Inr w2"
    and q: "facade_run h to_int post w2 = Inr w'"
    by (auto dest!: facade_run_append split: sum.splits)
  from facade_run_registry_some[OF p fresh] obtain m1 where m1: "tidToType (scheduler w1) = Some m1" ..
  from facade_step_registry[OF s m1] have m2: "tidToType (scheduler w2) = Some (m1(to_int t \<mapsto> r))"
    by simp
  from a have "\<forall>t' r'. Op_register_thread t' r' \<in> set post \<longrightarrow> to_int t' \<noteq> to_int t" by simp
  from registry_kept[OF q m2 _ this, of r] obtain m' where
    "tidToType (scheduler w') = Some m'" "m' (to_int t) = Some r" by auto
  then show "scheduler__get_thread_type to_int t w' = Inr r"
    by (simp add: scheduler__get_thread_type_def map_lookup_def)
next
  assume "\<forall>t' r'. Op_register_thread t' r' \<in> set xs \<longrightarrow> to_int t' \<noteq> to_int t"
  from registry_absent[OF run fresh _ this] obtain m' where
    "tidToType (scheduler w') = Some m'" "m' (to_int t) = None" by auto
  then show "scheduler__get_thread_type to_int t w' = Inl (Assertion_failed A_found)"
    by (simp add: scheduler__get_thread_type_def map_lookup_def)
qed

theorem registry_lookup_by_key_witness:
  "facade_run header0 id [Op_register_thread (5::int) 1, Op_thread_yield 0 0] (running 0 ''run.sched'')
     = Inr registered0 \<and>
   tidToType (scheduler (running 0 ''run.sched'')) = Some Map.empty \<and>
   scheduler__get_thread_type id (5::int) registered0 = Inr 1 \<and>
   scheduler__get_thread_type id (6::int) registered0 = Inl (Assertion_failed A_found)"
proof -
  have fresh: "tidToType (scheduler (running 0 ''run.sched'')) = Some Map.empty"
    by (simp add: running_def)
  from registry_lookup_by_key[OF run_registered0 fresh, of "[]" 5 1 "[Op_thread_yield 0 0]"]
  have a: "scheduler__get_thread_type id (5::int) registered0 = Inr 1" by simp
  from registry_lookup_by_key[OF run_registered0 fresh, of "[]" 6 1 "[Op_thread_yield 0 0]"]
  have b: "scheduler__get_thread_type id (6::int) registered0 = Inl (Assertion_failed A_found)" by simp
  from a b fresh run_registered0 show ?thesis by simp
qed

subsection \<open>The lock\<close>

text \<open>
  C7. The claim: every mutating public operation takes the reentrant lock around its
  forwarded call and releases it afterwards. The code: \<open>scheduler_thread_yield\<close> makes one
  call, the policy's \<open>thread_yield\<close>, and none to the mutex.
\<close>

theorem yield_takes_no_lock:
  "scheduler_thread_yield 0 0 (running 0 ''run.sched'') = Inr yielded0 \<and>
   calls yielded0 = calls (running 0 ''run.sched'') @ [Call_thread_yield 0 0 1] \<and>
   Call_reentrant_mutex_lock \<notin> set (calls yielded0)"
  by (simp add: scheduler_thread_yield_def scheduler__looks_valid_def yielded0_def running_def
      counting_policy_def)

text \<open>
  C7, as the code has it. No public operation takes or releases the lock: each makes at
  most its one forwarded call and leaves the mutex as it was, and the counter read makes
  no call at all. The lock is taken and released by the protected operations
  \<open>scheduler__lock\<close> and \<open>scheduler__unlock\<close>, each one call on the one mutex of the
  struct, and nowhere else.
\<close>

theorem lock_only_in_protected_operations:
  "(facade_step h to_int x w = Inr w' \<longrightarrow>
      mutex (scheduler w') = mutex (scheduler w) \<and>
      (\<exists>cs. calls w' = calls w @ cs \<and> length cs \<le> 1 \<and>
            Call_reentrant_mutex_lock \<notin> set cs \<and> Call_reentrant_mutex_unlock \<notin> set cs)) \<and>
   (scheduler_n_executed w = Inr (n_executed (scheduler w)) \<or>
    scheduler_n_executed w = Inl (Assertion_failed A_looks_valid)) \<and>
   (scheduler__lock l = Inr l' \<longrightarrow>
      calls l' = calls l @ [Call_reentrant_mutex_lock] \<and>
      mutex (scheduler l') = map_option Suc (mutex (scheduler l))) \<and>
   (scheduler__unlock u = Inr u' \<longrightarrow>
      calls u' = calls u @ [Call_reentrant_mutex_unlock] \<and>
      mutex (scheduler u) = map_option Suc (mutex (scheduler u')))"
proof (intro conjI impI)
  assume "scheduler__lock l = Inr l'"
  then show "calls l' = calls l @ [Call_reentrant_mutex_lock]"
    and "mutex (scheduler l') = map_option Suc (mutex (scheduler l))"
    by (auto simp: scheduler__lock_def reentrant_mutex_lock_def split: option.splits)
next
  assume "scheduler__unlock u = Inr u'"
  then show "calls u' = calls u @ [Call_reentrant_mutex_unlock]"
    and "mutex (scheduler u) = map_option Suc (mutex (scheduler u'))"
    by (auto simp: scheduler__unlock_def reentrant_mutex_unlock_def split: option.splits nat.splits)
qed (auto dest: facade_step_calls simp: scheduler_n_executed_def)

theorem lock_only_in_protected_operations_witness:
  "facade_step header0 (id :: int \<Rightarrow> int) (Op_thread_yield 0 0) (running 0 ''run.sched'') = Inr yielded0 \<and>
   mutex (scheduler yielded0) = mutex (scheduler (running 0 ''run.sched'')) \<and>
   scheduler__lock (running 0 ''run.sched'') = Inr locked0 \<and>
   calls locked0 = calls (running 0 ''run.sched'') @ [Call_reentrant_mutex_lock] \<and>
   scheduler__unlock locked0 =
     Inr (locked0\<lparr>scheduler := (scheduler locked0)\<lparr>mutex := Some 0\<rparr>,
                  calls := calls locked0 @ [Call_reentrant_mutex_unlock]\<rparr>) \<and>
   calls (locked0\<lparr>scheduler := (scheduler locked0)\<lparr>mutex := Some 0\<rparr>,
                  calls := calls locked0 @ [Call_reentrant_mutex_unlock]\<rparr>)
     = calls locked0 @ [Call_reentrant_mutex_unlock]"
proof -
  have y: "facade_step header0 (id :: int \<Rightarrow> int) (Op_thread_yield 0 0) (running 0 ''run.sched'') = Inr yielded0"
    by (simp add: scheduler_thread_yield_def scheduler__looks_valid_def yielded0_def running_def
        counting_policy_def)
  have l: "scheduler__lock (running 0 ''run.sched'') = Inr locked0"
    by (simp add: scheduler__lock_def reentrant_mutex_lock_def locked0_def running_def)
  have u: "scheduler__unlock locked0 =
     Inr (locked0\<lparr>scheduler := (scheduler locked0)\<lparr>mutex := Some 0\<rparr>,
                  calls := calls locked0 @ [Call_reentrant_mutex_unlock]\<rparr>)"
    by (simp add: scheduler__unlock_def reentrant_mutex_unlock_def locked0_def)
  from lock_only_in_protected_operations[of header0 id "Op_thread_yield 0 0" "running 0 ''run.sched''"
      yielded0 "running 0 ''run.sched''" locked0 locked0
      "locked0\<lparr>scheduler := (scheduler locked0)\<lparr>mutex := Some 0\<rparr>,
                  calls := calls locked0 @ [Call_reentrant_mutex_unlock]\<rparr>"] y l u
  show ?thesis by simp
qed

subsection \<open>The counter and the other fields\<close>

text \<open>
  C8. Across a run of public operations the value \<open>scheduler_n_executed\<close> returns never
  decreases: if it returns \<open>c1\<close> before the run, it returns after the run, and what it
  returns is at least \<open>c1\<close>. The policy in the struct is arbitrary.
\<close>

theorem executed_count_never_decreases:
  assumes "scheduler_n_executed w = Inr c1" and "facade_run h to_int xs w = Inr w'"
  shows "\<exists>c2. scheduler_n_executed w' = Inr c2 \<and> c1 \<le> c2"
  using assms(1) facade_run_valid[OF assms(2)] facade_run_n_executed[OF assms(2)]
  by (auto simp: scheduler_n_executed_def split: if_splits)

theorem executed_count_never_decreases_witness:
  "scheduler_n_executed (running 0 ''run.sched'') = Inr 0 \<and>
   facade_run header0 id [Op_register_thread (5::int) 1, Op_thread_yield 0 0] (running 0 ''run.sched'')
     = Inr registered0 \<and>
   scheduler_n_executed registered0 = Inr 0"
proof -
  have c: "scheduler_n_executed (running 0 ''run.sched'') = Inr 0"
    by (simp add: scheduler_n_executed_def running_valid) (simp add: running_def)
  from executed_count_never_decreases[OF c run_registered0] c run_registered0
  show ?thesis by (auto simp: scheduler_n_executed_def registered0_def running_def split: if_splits)
qed



end
